theory Spec2Isabelle
  imports Main "HOL-Library.Monad_Syntax"
begin

section \<open>Shared data model\<close>

text \<open>
  Go strings are byte strings, modelled as \<open>string\<close>. A Go function returning
  \<open>(value, error)\<close> is a sum \<open>error + value\<close>, \<open>Inl\<close> carrying the error. A nil
  slice is the empty list. Errors are compared by identity in the source
  (\<open>err != errUnknownFileSystem\<close>), so each package-level error variable is a
  constructor of its own; an error handed back by an external call (the AWS SDK, a
  subprocess, the operating system) is \<open>External\<close> with its message, and an error
  built on the spot by \<open>goof.New\<close>, \<open>goof.WithFields\<close>, \<open>errors.New\<close> or
  \<open>fmt.Errorf\<close> is \<open>Goof\<close> with its message. \<open>EOF\<close> is \<open>io.EOF\<close>. A
  nil-pointer dereference or a slice bound out of range is \<open>Panic\<close>.
\<close>

datatype error =
    ErrInvalidOutput
  | ErrMissingVolID
  | ErrMissingVolName
  | GlusterErrMissingVolID
  | GlusterErrMissingVolName
  | ErrNotImplemented
  | ErrNotFound
  | errUnknownOS
  | errUnknownFileSystem
  | errUnsupportedFileSystem
  | EOF
  | External string
  | Goof string
  | Panic

record InstanceID =
  iid_ID :: string
  iid_Driver :: string

record VolumeAttachment =
  att_VolumeID :: string
  att_InstanceID :: InstanceID
  att_DeviceName :: string
  att_Status :: string

record Volume =
  vol_Name :: string
  vol_ID :: string
  vol_Size :: int
  vol_Type :: string
  vol_Fields :: "(string \<times> string) list"
  vol_Attachments :: "VolumeAttachment list"

record Snapshot =
  snap_Name :: string
  snap_ID :: string

text \<open>
  \<open>context.LocalDevices(ctx)\<close> returns the local device map of the context and
  whether there is one. The context is modelled by what that call reads from it:
  \<open>None\<close> when no local devices are attached to the context, \<open>Some m\<close> with the
  \<open>DeviceMap\<close> (a Go \<open>map[string]string\<close>) otherwise.
\<close>

type_synonym DeviceMap = "string \<rightharpoonup> string"

record Context =
  ctx_LocalDevices :: "DeviceMap option"

text \<open>
  An \<open>exec.Cmd\<close> as the drivers build it: the argument vector (with the program name
  first), the environment (\<open>None\<close> is Go's nil \<open>Env\<close>: the child inherits the
  parent's environment), what is wired to standard input, and the two
  \<open>SysProcAttr\<close> flags the OS driver sets.
\<close>

record Cmd =
  cmd_Args :: "string list"
  cmd_Env :: "string list option"
  cmd_Stdin :: "string option"
  cmd_Setsid :: bool
  cmd_Setctty :: bool

definition Command :: "string \<Rightarrow> string list \<Rightarrow> Cmd" where
  "Command name args =
     \<lparr>cmd_Args = name # args, cmd_Env = None, cmd_Stdin = None,
      cmd_Setsid = False, cmd_Setctty = False\<rparr>"

text \<open>
  What \<open>cmd.Run()\<close> reports: success, an \<open>*exec.ExitError\<close> (the process ran and
  exited unsuccessfully) with its text, or another error (the process could not be
  started).
\<close>

datatype run_result = RunOk | RunExitError string | RunFailed error

section \<open>The objectivefs storage driver\<close>

definition objectivefsBinary :: string where
  "objectivefsBinary = ''mount.objectivefs''"

definition objectivefsPrefix :: string where
  "objectivefsPrefix = ''s3://''"

text \<open>
  The driver holds its configuration; each accessor of the source reads one key.
  \<open>ofs_Name\<close> stands for the package constant \<open>objectivefs.Name\<close>, whose
  declaration is not among the sources.
\<close>

record ofs_driver =
  ofs_Name :: string
  ofs_accessKey :: string
  ofs_secretKey :: string
  ofs_region :: string
  ofs_license :: string
  ofs_adminLicense :: string
  ofs_passphrase :: string
  ofs_metadataHost :: string

definition objectivefsDefaultEnv :: "ofs_driver \<Rightarrow> string list" where
  "objectivefsDefaultEnv d =
     [''AWS_DEFAULT_REGION='' @ ofs_region d] @
     (if ofs_metadataHost d \<noteq> [] then [''AWS_METADATA_HOST='' @ ofs_metadataHost d]
      else [''AWS_ACCESS_KEY_ID='' @ ofs_accessKey d,
            ''AWS_SECRET_ACCESS_KEY='' @ ofs_secretKey d])"

text \<open>
  The extra environment is a Go map, iterated in an unspecified order; the model
  takes it as an association list in the order of iteration.
\<close>

definition objectivefsEnv :: "ofs_driver \<Rightarrow> (string \<times> string) list \<Rightarrow> string list" where
  "objectivefsEnv d env = objectivefsDefaultEnv d @ map (\<lambda>(k, v). k @ ''='' @ v) env"

definition objectivefsAdmin ::
  "ofs_driver \<Rightarrow> string \<Rightarrow> string list \<Rightarrow> (string \<times> string) list \<Rightarrow> Cmd" where
  "objectivefsAdmin d subcommand args env =
     (Command objectivefsBinary (subcommand # args))
       \<lparr>cmd_Env := Some (objectivefsEnv d env @ [''OBJECTIVEFS_LICENSE='' @ ofs_adminLicense d])\<rparr>"

definition ofs_getVolumeAttachments ::
  "ofs_driver \<Rightarrow> Context \<Rightarrow> string \<Rightarrow> error + VolumeAttachment list" where
  "ofs_getVolumeAttachments d ctx volumeID =
     (if volumeID = [] then Inl ErrMissingVolID
      else
        let dev = objectivefsPrefix @ volumeID;
            status =
              (case ctx_LocalDevices ctx of
                 Some ld \<Rightarrow>
                   (case ld dev of
                      Some _ \<Rightarrow> ''Exported and Mounted''
                    | None \<Rightarrow> ''Exported and Unmounted'')
               | None \<Rightarrow> ''Exported'')
        in Inr [\<lparr>att_VolumeID = volumeID,
                 att_InstanceID = \<lparr>iid_ID = ofs_region d, iid_Driver = ofs_Name d\<rparr>,
                 att_DeviceName = dev,
                 att_Status = status\<rparr>])"

text \<open>
  \<open>VolumeInspect\<close> talks to no backend: it reads its arguments and the context
  only, so its model has no external call to record.
\<close>

definition ofs_VolumeInspect ::
  "ofs_driver \<Rightarrow> Context \<Rightarrow> string \<Rightarrow> bool \<Rightarrow> error + Volume" where
  "ofs_VolumeInspect d ctx volumeID optsAttachments =
     (if volumeID = [] then Inl ErrMissingVolID
      else
        let volume = \<lparr>vol_Name = volumeID, vol_ID = volumeID, vol_Size = 0,
                      vol_Type = [], vol_Fields = [], vol_Attachments = []\<rparr>
        in if optsAttachments then
             (case ofs_getVolumeAttachments d ctx volumeID of
                Inl err \<Rightarrow> Inl err
              | Inr atts \<Rightarrow> Inr (volume\<lparr>vol_Attachments := atts\<rparr>))
           else Inr volume)"

text \<open>
  \<open>VolumeCreate\<close> runs the admin binary. The subprocess is external: \<open>run\<close> says
  what \<open>cmd.Run()\<close> reports for a command, and the second component of the result
  lists the commands that were run, in order.
\<close>

definition ofs_VolumeCreate ::
  "ofs_driver \<Rightarrow> (Cmd \<Rightarrow> run_result) \<Rightarrow> Context \<Rightarrow> string \<Rightarrow> (error + Volume) \<times> Cmd list" where
  "ofs_VolumeCreate d run ctx name =
     (if name = [] then (Inl ErrMissingVolName, [])
      else
        let cmd = objectivefsAdmin d ''create'' [name]
                    [(''OBJECTIVEFS_PASSPHRASE'', ofs_passphrase d)]
        in case run cmd of
             RunExitError msg \<Rightarrow> (Inl (Goof (''objectivefs create failed:'' @ msg)), [cmd])
           | RunFailed err \<Rightarrow> (Inl err, [cmd])
           | RunOk \<Rightarrow> (ofs_VolumeInspect d ctx name False, [cmd]))"

text \<open>The snapshot operations of the driver, each a constant.\<close>

definition ofs_VolumeCreateFromSnapshot :: "string \<Rightarrow> string \<Rightarrow> error + Volume option" where
  "ofs_VolumeCreateFromSnapshot snapshotID volumeName = Inl ErrNotImplemented"

definition ofs_VolumeCopy :: "string \<Rightarrow> string \<Rightarrow> error + Volume option" where
  "ofs_VolumeCopy volumeID volumeName = Inl ErrNotImplemented"

definition ofs_VolumeSnapshot :: "string \<Rightarrow> string \<Rightarrow> error + Snapshot option" where
  "ofs_VolumeSnapshot volumeID snapshotName = Inl ErrNotImplemented"

definition ofs_Snapshots :: "error + Snapshot list" where
  "ofs_Snapshots = Inr []"

definition ofs_SnapshotInspect :: "string \<Rightarrow> error + Snapshot option" where
  "ofs_SnapshotInspect snapshotID = Inr None"

definition ofs_SnapshotCopy :: "string \<Rightarrow> string \<Rightarrow> string \<Rightarrow> error + Snapshot option" where
  "ofs_SnapshotCopy snapshotID snapshotName destinationID = Inr None"

definition ofs_SnapshotRemove :: "string \<Rightarrow> error option" where
  "ofs_SnapshotRemove snapshotID = None"

section \<open>The glusterfs storage driver\<close>

text \<open>
  The device string of the glusterfs driver is \<open>fmt.Sprintf(d.formatter(), volumeID)\<close>
  with a formatter read from the configuration. The model takes the formatting as a
  function \<open>formatter\<close> from the volume ID to the device string. \<open>mockID\<close> is the
  constant of the source; \<open>glusterfs_Name\<close> is the package constant.
\<close>

definition mockID :: string where
  "mockID = ''an-unused-id''"

definition glusterfs_Name :: string where
  "glusterfs_Name = ''glusterfs''"

definition gluster_getVolumeAttachments ::
  "(string \<Rightarrow> string) \<Rightarrow> Context \<Rightarrow> string \<Rightarrow> error + VolumeAttachment list" where
  "gluster_getVolumeAttachments formatter ctx volumeID =
     (if volumeID = [] then Inl GlusterErrMissingVolID
      else
        let dev = formatter volumeID;
            status =
              (case ctx_LocalDevices ctx of
                 Some ld \<Rightarrow>
                   (case ld dev of
                      Some _ \<Rightarrow> ''Exported and Mounted''
                    | None \<Rightarrow> ''Exported and Unmounted'')
               | None \<Rightarrow> ''Exported'')
        in Inr [\<lparr>att_VolumeID = volumeID,
                 att_InstanceID = \<lparr>iid_ID = mockID, iid_Driver = glusterfs_Name\<rparr>,
                 att_DeviceName = dev,
                 att_Status = status\<rparr>])"

definition gluster_VolumeInspect ::
  "(string \<Rightarrow> string) \<Rightarrow> Context \<Rightarrow> string \<Rightarrow> bool \<Rightarrow> error + Volume" where
  "gluster_VolumeInspect formatter ctx volumeID optsAttachments =
     (let volume = \<lparr>vol_Name = volumeID, vol_ID = volumeID, vol_Size = 0,
                    vol_Type = [], vol_Fields = [], vol_Attachments = []\<rparr>
      in if optsAttachments then
           (case gluster_getVolumeAttachments formatter ctx volumeID of
              Inl err \<Rightarrow> Inl err
            | Inr atts \<Rightarrow>
                Inr (if length atts > 0 then volume\<lparr>vol_Attachments := atts\<rparr> else volume))
         else Inr volume)"

text \<open>
  \<open>VolumeCreate\<close> returns on its first statement; the check of the name and the
  insertion that follow it in the source are unreachable.
\<close>

definition gluster_VolumeCreate :: "string \<Rightarrow> error + Volume" where
  "gluster_VolumeCreate name = Inl ErrNotImplemented"

text \<open>The snapshot operations of the glusterfs driver, each a constant.\<close>

definition gluster_VolumeCreateFromSnapshot :: "string \<Rightarrow> string \<Rightarrow> error + Volume option" where
  "gluster_VolumeCreateFromSnapshot snapshotID volumeName = Inl ErrNotImplemented"

definition gluster_VolumeCopy :: "string \<Rightarrow> string \<Rightarrow> error + Volume option" where
  "gluster_VolumeCopy volumeID volumeName = Inl ErrNotImplemented"

definition gluster_VolumeSnapshot :: "string \<Rightarrow> string \<Rightarrow> error + Snapshot option" where
  "gluster_VolumeSnapshot volumeID snapshotName = Inl ErrNotImplemented"

definition gluster_Snapshots :: "error + Snapshot list" where
  "gluster_Snapshots = Inr []"

definition gluster_SnapshotInspect :: "string \<Rightarrow> error + Snapshot option" where
  "gluster_SnapshotInspect snapshotID = Inr None"

definition gluster_SnapshotCopy :: "string \<Rightarrow> string \<Rightarrow> string \<Rightarrow> error + Snapshot option" where
  "gluster_SnapshotCopy snapshotID snapshotName destinationID = Inr None"

definition gluster_SnapshotRemove :: "string \<Rightarrow> error option" where
  "gluster_SnapshotRemove snapshotID = None"

section \<open>The efs storage driver\<close>

text \<open>
  The driver reaches Amazon EFS through the SDK client. The service is external: the
  model takes what each call answers as a function of its input, and records the calls
  made, in order. The fields of the SDK's answers are pointers, which the driver
  dereferences without a check. Those the service may leave out (\<open>Name\<close>, set only
  for a file system that has a \<open>Name\<close> tag, and \<open>IpAddress\<close>) are options, and
  dereferencing one that is nil is \<open>Panic\<close>; the identifiers and the size are taken
  to be there.
\<close>

record FileSystemDescription =
  fs_Name :: "string option"
  fs_FileSystemId :: string
  fs_SizeInBytes :: int

record MountTargetDescription =
  mt_IpAddress :: "string option"
  mt_FileSystemId :: string
  mt_SubnetId :: string

datatype efs_call =
    DescribeFileSystems string
  | CreateFileSystem string
  | CreateTags string string string
  | DescribeMountTargets string

record efs_client =
  efs_DescribeFileSystems :: "string \<Rightarrow> error + FileSystemDescription list"
  efs_CreateFileSystem :: "string \<Rightarrow> error + string"
  efs_CreateTags :: "string \<Rightarrow> string \<Rightarrow> string \<Rightarrow> error option"
  efs_DescribeMountTargets :: "string \<Rightarrow> error + MountTargetDescription list"

definition efs_Name :: string where
  "efs_Name = ''efs''"

definition tagDelimiter :: string where
  "tagDelimiter = ''/''"

text \<open>
  \<open>strings.TrimLeft(s, cutset)\<close> removes from the front of \<open>s\<close> every leading
  character contained in \<open>cutset\<close>; on ASCII text its code points are the bytes.
  \<open>strings.TrimPrefix(s, prefix)\<close>, which the s3fs driver uses for the same purpose,
  removes \<open>prefix\<close> once when \<open>s\<close> starts with it.
\<close>

definition TrimLeft :: "string \<Rightarrow> string \<Rightarrow> string" where
  "TrimLeft s cutset = dropWhile (\<lambda>c. c \<in> set cutset) s"

definition TrimPrefix :: "string \<Rightarrow> string \<Rightarrow> string" where
  "TrimPrefix s p = (if take (length p) s = p then drop (length p) s else s)"

definition getPrintableName :: "string \<Rightarrow> string \<Rightarrow> string" where
  "getPrintableName tag name = TrimLeft name (tag @ tagDelimiter)"

definition getFullVolumeName :: "string \<Rightarrow> string \<Rightarrow> string" where
  "getFullVolumeName tag name = tag @ tagDelimiter @ name"

definition s3fs_tagDelimiter :: string where
  "s3fs_tagDelimiter = ''--''"

definition s3fs_getPrintableName :: "string \<Rightarrow> string \<Rightarrow> string" where
  "s3fs_getPrintableName tag name = TrimPrefix name (tag @ s3fs_tagDelimiter)"

definition s3fs_getFullVolumeName :: "string \<Rightarrow> string \<Rightarrow> string" where
  "s3fs_getFullVolumeName tag name = tag @ s3fs_tagDelimiter @ name"

fun efs_attachments ::
  "DeviceMap option \<Rightarrow> MountTargetDescription list \<Rightarrow> error + VolumeAttachment list" where
  "efs_attachments ld [] = Inr []"
| "efs_attachments ld (target # targets) =
     (case (case ld of
              Some m \<Rightarrow>
                (case mt_IpAddress target of
                   None \<Rightarrow> Inl Panic
                 | Some ip \<Rightarrow>
                     (let dev = ip @ '':'' @ ''/''
                      in Inr (dev, (case m dev of
                                      Some _ \<Rightarrow> ''Exported and Mounted''
                                    | None \<Rightarrow> ''Exported and Unmounted''))))
            | None \<Rightarrow> Inr ([], ''Exported'')) of
        Inl err \<Rightarrow> Inl err
      | Inr (dev, status) \<Rightarrow>
          (case efs_attachments ld targets of
             Inl err \<Rightarrow> Inl err
           | Inr atts \<Rightarrow>
               Inr (\<lparr>att_VolumeID = mt_FileSystemId target,
                     att_InstanceID = \<lparr>iid_ID = mt_SubnetId target, iid_Driver = efs_Name\<rparr>,
                     att_DeviceName = dev,
                     att_Status = status\<rparr> # atts)))"

definition efs_getVolumeAttachments ::
  "efs_client \<Rightarrow> Context \<Rightarrow> string \<Rightarrow> (error + VolumeAttachment list) \<times> efs_call list" where
  "efs_getVolumeAttachments c ctx volumeID =
     (if volumeID = [] then (Inl (Goof ''Missing volume ID''), [])
      else
        case efs_DescribeMountTargets c volumeID of
          Inl err \<Rightarrow> (Inl err, [DescribeMountTargets volumeID])
        | Inr mountTargets \<Rightarrow>
            (efs_attachments (ctx_LocalDevices ctx) mountTargets,
             [DescribeMountTargets volumeID]))"

definition efs_VolumeInspect ::
  "string \<Rightarrow> efs_client \<Rightarrow> Context \<Rightarrow> string \<Rightarrow> bool \<Rightarrow> (error + Volume) \<times> efs_call list" where
  "efs_VolumeInspect tag c ctx volumeID optsAttachments =
     (case efs_DescribeFileSystems c volumeID of
        Inl err \<Rightarrow> (Inl err, [DescribeFileSystems volumeID])
      | Inr [] \<Rightarrow> (Inl ErrNotFound, [DescribeFileSystems volumeID])
      | Inr (fileSystem # _) \<Rightarrow>
          (case fs_Name fileSystem of
             None \<Rightarrow> (Inl Panic, [DescribeFileSystems volumeID])
           | Some fsName \<Rightarrow>
               let volume = \<lparr>vol_Name = getPrintableName tag fsName,
                             vol_ID = fs_FileSystemId fileSystem,
                             vol_Size = fs_SizeInBytes fileSystem,
                             vol_Type = [], vol_Fields = [], vol_Attachments = []\<rparr>
               in if optsAttachments then
                    (case efs_getVolumeAttachments c ctx (fs_FileSystemId fileSystem) of
                       (Inl err, calls) \<Rightarrow> (Inl err, DescribeFileSystems volumeID # calls)
                     | (Inr atts, calls) \<Rightarrow>
                         (Inr (if length atts > 0 then volume\<lparr>vol_Attachments := atts\<rparr>
                               else volume),
                          DescribeFileSystems volumeID # calls))
                  else (Inr volume, [DescribeFileSystems volumeID])))"

definition efs_VolumeCreate ::
  "string \<Rightarrow> efs_client \<Rightarrow> Context \<Rightarrow> string \<Rightarrow> (error + Volume) \<times> efs_call list" where
  "efs_VolumeCreate tag c ctx name =
     (case efs_CreateFileSystem c name of
        Inl err \<Rightarrow> (Inl err, [CreateFileSystem name])
      | Inr fileSystemId \<Rightarrow>
          (case efs_CreateTags c fileSystemId ''Name'' (getFullVolumeName tag name) of
             Some err \<Rightarrow>
               (Inl err, [CreateFileSystem name,
                          CreateTags fileSystemId ''Name'' (getFullVolumeName tag name)])
           | None \<Rightarrow>
               (case efs_VolumeInspect tag c ctx fileSystemId False of
                  (r, calls) \<Rightarrow>
                    (r, [CreateFileSystem name,
                         CreateTags fileSystemId ''Name'' (getFullVolumeName tag name)] @ calls))))"

text \<open>The snapshot operations of the efs driver, each a constant.\<close>

definition efs_VolumeCreateFromSnapshot :: "string \<Rightarrow> string \<Rightarrow> error + Volume option" where
  "efs_VolumeCreateFromSnapshot snapshotID volumeName = Inl ErrNotImplemented"

definition efs_VolumeCopy :: "string \<Rightarrow> string \<Rightarrow> error + Volume option" where
  "efs_VolumeCopy volumeID volumeName = Inl ErrNotImplemented"

definition efs_VolumeSnapshot :: "string \<Rightarrow> string \<Rightarrow> error + Snapshot option" where
  "efs_VolumeSnapshot volumeID snapshotName = Inl ErrNotImplemented"

definition efs_Snapshots :: "error + Snapshot list" where
  "efs_Snapshots = Inr []"

definition efs_SnapshotInspect :: "string \<Rightarrow> error + Snapshot option" where
  "efs_SnapshotInspect snapshotID = Inr None"

definition efs_SnapshotCopy :: "string \<Rightarrow> string \<Rightarrow> string \<Rightarrow> error + Snapshot option" where
  "efs_SnapshotCopy snapshotID snapshotName destinationID = Inr None"

definition efs_SnapshotRemove :: "string \<Rightarrow> error option" where
  "efs_SnapshotRemove snapshotID = None"

section \<open>The s3fs storage driver\<close>

text \<open>The snapshot operations of the s3fs driver, each a constant.\<close>

definition s3fs_VolumeCreateFromSnapshot :: "string \<Rightarrow> string \<Rightarrow> error + Volume option" where
  "s3fs_VolumeCreateFromSnapshot snapshotID volumeName = Inl ErrNotImplemented"

definition s3fs_VolumeCopy :: "string \<Rightarrow> string \<Rightarrow> error + Volume option" where
  "s3fs_VolumeCopy volumeID volumeName = Inl ErrNotImplemented"

definition s3fs_VolumeSnapshot :: "string \<Rightarrow> string \<Rightarrow> error + Snapshot option" where
  "s3fs_VolumeSnapshot volumeID snapshotName = Inl ErrNotImplemented"

definition s3fs_Snapshots :: "error + Snapshot list" where
  "s3fs_Snapshots = Inr []"

definition s3fs_SnapshotInspect :: "string \<Rightarrow> error + Snapshot option" where
  "s3fs_SnapshotInspect snapshotID = Inr None"

definition s3fs_SnapshotCopy :: "string \<Rightarrow> string \<Rightarrow> string \<Rightarrow> error + Snapshot option" where
  "s3fs_SnapshotCopy snapshotID snapshotName destinationID = Inr None"

definition s3fs_SnapshotRemove :: "string \<Rightarrow> error option" where
  "s3fs_SnapshotRemove snapshotID = None"

section \<open>Removing an objectivefs volume\<close>

text \<open>
  \<open>VolumeRemove\<close> works on the bucket through the S3 client, which is external. Every
  \<open>ListObjects\<close> call of the function carries the same input (the bucket and
  nothing else), so what the service answers can only depend on the bucket and on
  which call it is: \<open>s3_ListObjects c n bucket\<close> is the answer to call number \<open>n\<close>
  (counted from 0). \<open>IsTruncated\<close> is a pointer in the SDK's answer, hence an option.
  The second component of a result lists the calls made, in order.
\<close>

record ListObjectsOutput =
  lo_Contents :: "string list"
  lo_IsTruncated :: "bool option"

datatype s3_call =
    ListObjects string
  | DeleteObjects string "string list"
  | DeleteBucket string
  | WaitUntilBucketNotExists string

record s3_client =
  s3_ListObjects :: "nat \<Rightarrow> string \<Rightarrow> error + ListObjectsOutput"
  s3_DeleteObjects :: "string \<Rightarrow> string list \<Rightarrow> error option"
  s3_DeleteBucket :: "string \<Rightarrow> error option"
  s3_WaitUntilBucketNotExists :: "string \<Rightarrow> error option"

text \<open>
  The loop \<open>for *resp.IsTruncated { resp, err := client.ListObjects(params) ... }\<close>.
  The \<open>:=\<close> in its body declares a new \<open>resp\<close> that lives in the body only, so
  the condition keeps reading the answer of the first call: \<open>resp\<close> is passed on
  unchanged. \<open>n\<close> is the number of calls made so far. The loop need not end, so it is
  a partial function, \<open>None\<close> standing for a run that does not return.
\<close>

partial_function (option) drain ::
  "s3_client \<Rightarrow> string \<Rightarrow> ListObjectsOutput \<Rightarrow> nat \<Rightarrow> string list \<Rightarrow> s3_call list \<Rightarrow>
   ((error + string list) \<times> s3_call list) option" where
  "drain c volumeID resp n deletables calls =
     (case lo_IsTruncated resp of
        None \<Rightarrow> Some (Inl Panic, calls)
      | Some truncated \<Rightarrow>
          if truncated then
            (case s3_ListObjects c n volumeID of
               Inl err \<Rightarrow> Some (Inl err, calls @ [ListObjects volumeID])
             | Inr resp' \<Rightarrow>
                 drain c volumeID resp (Suc n) (deletables @ lo_Contents resp')
                   (calls @ [ListObjects volumeID]))
          else Some (Inr deletables, calls))"

text \<open>What follows the loop: delete the collected keys, the bucket, then wait.\<close>

definition remove_bucket ::
  "s3_client \<Rightarrow> string \<Rightarrow> string list \<Rightarrow> s3_call list \<Rightarrow> error option \<times> s3_call list" where
  "remove_bucket c volumeID deletables calls =
     (case (if length deletables > 0
            then (s3_DeleteObjects c volumeID deletables,
                  calls @ [DeleteObjects volumeID deletables])
            else (None, calls)) of
        (Some err, calls1) \<Rightarrow> (Some err, calls1)
      | (None, calls1) \<Rightarrow>
          (case s3_DeleteBucket c volumeID of
             Some err \<Rightarrow> (Some err, calls1 @ [DeleteBucket volumeID])
           | None \<Rightarrow>
               (s3_WaitUntilBucketNotExists c volumeID,
                calls1 @ [DeleteBucket volumeID, WaitUntilBucketNotExists volumeID])))"

definition ofs_VolumeRemove ::
  "s3_client \<Rightarrow> string \<Rightarrow> (error option \<times> s3_call list) option" where
  "ofs_VolumeRemove c volumeID =
     (case s3_ListObjects c 0 volumeID of
        Inl err \<Rightarrow> Some (Some err, [ListObjects volumeID])
      | Inr resp \<Rightarrow>
          (case drain c volumeID resp 1 (lo_Contents resp) [ListObjects volumeID] of
             None \<Rightarrow> None
           | Some (Inl err, calls) \<Rightarrow> Some (Some err, calls)
           | Some (Inr deletables, calls) \<Rightarrow> Some (remove_bucket c volumeID deletables calls)))"

section \<open>The linux OS driver\<close>

text \<open>
  The driver reads three configuration keys. What it does to the host is recorded as
  a list of calls: commands run, the mount-table query, the \<open>mount\<close> system call
  wrapper, and the two calls that prepare the data directory (whose errors the source
  ignores).
\<close>

record linux_driver =
  linux_objectivefsPassphrase :: string
  linux_rootpath :: string
  linux_filemode :: int

datatype os_call =
    Exec Cmd
  | QueryMounted string
  | SysMount string string string string
  | MkdirAll string int
  | Chmod string int

text \<open>
  The host, as far as the driver depends on it: \<open>host_open\<close> is \<open>os.Open\<close>,
  \<open>host_run\<close> is what running a command reports, \<open>host_mounted\<close> and
  \<open>host_mount\<close> are the package functions \<open>mounted\<close> and \<open>mount\<close>, which are
  not among the sources and are taken as they are called, and \<open>host_environ\<close> is
  the environment of the driver's own process (\<open>os.Environ()\<close>).
\<close>

datatype os_file = File string | Unreadable error

record host =
  host_open :: "string \<Rightarrow> error + os_file"
  host_run :: "Cmd \<Rightarrow> run_result"
  host_mounted :: "string \<Rightarrow> error + bool"
  host_mount :: "string \<Rightarrow> string \<Rightarrow> string \<Rightarrow> string \<Rightarrow> error option"
  host_environ :: "string list"

text \<open>
  The environment a command is started with: its \<open>Env\<close> when the driver has set
  one, the environment of the driver's process when \<open>Env\<close> is nil.
\<close>

definition child_environ :: "host \<Rightarrow> Cmd \<Rightarrow> string list" where
  "child_environ h cmd = (case cmd_Env cmd of None \<Rightarrow> host_environ h | Some env \<Rightarrow> env)"

text \<open>
  \<open>file.Read(buffer)\<close> on a file or block device holding \<open>bs\<close>, read from its start
  into a buffer of \<open>n\<close> bytes: it delivers the first \<open>n\<close> bytes, fewer when the file is
  shorter, and \<open>io.EOF\<close> when there is nothing to deliver.
\<close>

definition Read :: "os_file \<Rightarrow> nat \<Rightarrow> error + string" where
  "Read f n =
     (case f of
        Unreadable err \<Rightarrow> Inl err
      | File bs \<Rightarrow> if n = 0 then Inr [] else if bs = [] then Inl EOF else Inr (take n bs))"

fun Contains :: "string \<Rightarrow> string \<Rightarrow> bool" where
  "Contains [] substr = (substr = [])"
| "Contains (c # cs) substr = (take (length substr) (c # cs) = substr \<or> Contains cs substr)"

text \<open>\<open>appears_in p xs\<close>: the string \<open>p\<close> occurs inside one of the strings \<open>xs\<close>.\<close>

definition appears_in :: "string \<Rightarrow> string list \<Rightarrow> bool" where
  "appears_in p xs = list_ex (\<lambda>x. Contains x p) xs"

subsection \<open>Probing the filesystem signature\<close>

text \<open>
  Offsets are \<open>uint64\<close> in the source; the sums \<open>offset + len(magic)\<close> of the table
  are far from wrapping, so they are natural numbers here. The ext4 magic is the Go
  literal \<open>"\123\357"\<close>, the two bytes 0x53 and 0xEF.
\<close>

record probeData =
  fsName :: string
  magic :: string
  offset :: nat

definition probes :: "probeData list" where
  "probes =
     [\<lparr>fsName = ''btrfs'', magic = ''_BHRfS_M'', offset = 0x10040\<rparr>,
      \<lparr>fsName = ''ext4'', magic = [CHR 0x53, CHR 0xEF], offset = 0x438\<rparr>,
      \<lparr>fsName = ''xfs'', magic = ''XFSB'', offset = 0\<rparr>]"

fun maxLen_loop :: "probeData list \<Rightarrow> nat \<Rightarrow> nat" where
  "maxLen_loop [] maxLen = maxLen"
| "maxLen_loop (p # ps) maxLen =
     (let l = offset p + length (magic p)
      in maxLen_loop ps (if l > maxLen then l else maxLen))"

fun match_probes :: "probeData list \<Rightarrow> string \<Rightarrow> error + string" where
  "match_probes [] buffer = Inl errUnknownFileSystem"
| "match_probes (p # ps) buffer =
     (if magic p = take (length (magic p)) (drop (offset p) buffer)
      then Inr (fsName p)
      else match_probes ps buffer)"

definition probeFsType :: "host \<Rightarrow> string \<Rightarrow> error + string" where
  "probeFsType h device =
     (let maxLen = maxLen_loop probes 0
      in case host_open h device of
           Inl err \<Rightarrow> Inl err
         | Inr f \<Rightarrow>
             (case Read f maxLen of
                Inl err \<Rightarrow> Inl err
              | Inr buffer \<Rightarrow>
                  if length buffer \<noteq> maxLen then Inl (Goof ''error detecting filesystem'')
                  else match_probes probes buffer))"

subsection \<open>Format\<close>

definition Format ::
  "host \<Rightarrow> string \<Rightarrow> bool \<Rightarrow> string \<Rightarrow> error option \<times> os_call list" where
  "Format h deviceName optsOverwriteFS optsNewFSType =
     (case (case probeFsType h deviceName of
              Inl err \<Rightarrow> if err \<noteq> errUnknownFileSystem then Inl err else Inr []
            | Inr fsType \<Rightarrow> Inr fsType) of
        Inl err \<Rightarrow> (Some err, [])
      | Inr fsType \<Rightarrow>
          let fsDetected = (fsType \<noteq> [])
          in if optsOverwriteFS \<or> \<not> fsDetected then
               (if optsNewFSType = ''ext4'' then
                  (let cmd = Command ''mkfs.ext4'' [''-F'', deviceName]
                   in case host_run h cmd of
                        RunOk \<Rightarrow> (None, [Exec cmd])
                      | _ \<Rightarrow> (Some (Goof ''error creating filesystem''), [Exec cmd]))
                else if optsNewFSType = ''xfs'' then
                  (let cmd = Command ''mkfs.xfs'' [''-f'', deviceName]
                   in case host_run h cmd of
                        RunOk \<Rightarrow> (None, [Exec cmd])
                      | _ \<Rightarrow> (Some (Goof ''error creating filesystem''), [Exec cmd]))
                else (Some errUnsupportedFileSystem, []))
             else (None, []))"

subsection \<open>Mount\<close>

definition isNfsDevice :: "string \<Rightarrow> bool" where
  "isNfsDevice device = Contains device '':''"

definition isObjectivefsDevice :: "string \<Rightarrow> bool" where
  "isObjectivefsDevice device = Contains device ''s3://''"

definition volumeMountPath :: "linux_driver \<Rightarrow> string \<Rightarrow> string" where
  "volumeMountPath d target = target @ linux_rootpath d"

definition nfsMount :: "host \<Rightarrow> string \<Rightarrow> string \<Rightarrow> error option \<times> os_call list" where
  "nfsMount h device target =
     (let command = Command ''mount'' [device, target]
      in case host_run h command of
           RunOk \<Rightarrow> (None, [Exec command])
         | _ \<Rightarrow> (Some (Goof ''failed mounting''), [Exec command]))"

definition objectivefsMount ::
  "linux_driver \<Rightarrow> host \<Rightarrow> string \<Rightarrow> string \<Rightarrow> error option \<times> os_call list" where
  "objectivefsMount d h device target =
     (let command = Command ''mount'' [''-t'', ''objectivefs'', device, target];
          p = linux_objectivefsPassphrase d
      in if p = [] then
           (Some (Goof ''missing license: set correct linux.volume.objectivefsPassphrase''), [])
         else
           let passphrase = p @ [CHR 0x0A];
               command = command\<lparr>cmd_Stdin := Some passphrase,
                                  cmd_Setctty := False, cmd_Setsid := True\<rparr>
           in case host_run h command of
                RunOk \<Rightarrow>
                  (case host_mounted h target of
                     Inl err \<Rightarrow>
                       (Some (Goof (''failed to verify mount '' @ device @ '' to '' @ target)),
                        [Exec command, QueryMounted target])
                   | Inr successful \<Rightarrow>
                       if \<not> successful then
                         (Some (Goof (''failed mounting '' @ device @ '' to '' @ target)),
                          [Exec command, QueryMounted target])
                       else (None, [Exec command, QueryMounted target]))
              | _ \<Rightarrow>
                  (Some (Goof (''failed mounting '' @ device @ '' to '' @ target)),
                   [Exec command]))"

definition prepare_mount_path :: "linux_driver \<Rightarrow> string \<Rightarrow> os_call list" where
  "prepare_mount_path d mountPoint =
     [MkdirAll (volumeMountPath d mountPoint) (linux_filemode d),
      Chmod (volumeMountPath d mountPoint) (linux_filemode d)]"

definition Mount ::
  "linux_driver \<Rightarrow> host \<Rightarrow> string \<Rightarrow> string \<Rightarrow> string \<Rightarrow> string \<Rightarrow>
   error option \<times> os_call list" where
  "Mount d h deviceName mountPoint optsMountOptions optsMountLabel =
     (if isObjectivefsDevice deviceName then
        (case objectivefsMount d h deviceName mountPoint of
           (Some err, calls) \<Rightarrow> (Some err, calls)
         | (None, calls) \<Rightarrow> (None, calls @ prepare_mount_path d mountPoint))
      else if isNfsDevice deviceName then
        (case nfsMount h deviceName mountPoint of
           (Some err, calls) \<Rightarrow> (Some err, calls)
         | (None, calls) \<Rightarrow> (None, calls @ prepare_mount_path d mountPoint))
      else
        (case probeFsType h deviceName of
           Inl err \<Rightarrow> (Some err, [])
         | Inr fsType \<Rightarrow>
             let options = (if fsType = ''xfs'' then optsMountLabel @ '',nouuid''
                            else optsMountOptions @ '','' @ optsMountLabel)
             in (case host_mount h deviceName mountPoint fsType options of
                   Some err \<Rightarrow>
                     (Some (Goof ''error mounting directory''),
                      [SysMount deviceName mountPoint fsType options])
                 | None \<Rightarrow>
                     (None, [SysMount deviceName mountPoint fsType options]
                              @ prepare_mount_path d mountPoint))))"

section \<open>Parsing the mount table (efs executor)\<close>

text \<open>
  \<open>parseInfoFile\<close> rests on three library functions: \<open>bufio.Scanner\<close> with its
  default line splitting, \<open>fmt.Sscanf\<close> with the format
  \<open>"%d %d %d:%d %s %s %s %s"\<close>, and \<open>strings.Index\<close>, \<open>strings.Fields\<close> and
  \<open>strings.Join\<close>. They are modelled on bytes, for text whose white space is ASCII
  (tab, line feed, vertical tab, form feed, carriage return, space).
\<close>

record MountInfo =
  mi_ID :: int
  mi_Parent :: int
  mi_Major :: int
  mi_Minor :: int
  mi_Root :: string
  mi_MountPoint :: string
  mi_Opts :: string
  mi_Optional :: string
  mi_FSType :: string
  mi_Source :: string
  mi_VFSOpts :: string

definition isSpace :: "char \<Rightarrow> bool" where
  "isSpace c =
     (c = CHR 0x09 \<or> c = CHR 0x0A \<or> c = CHR 0x0B \<or> c = CHR 0x0C \<or> c = CHR 0x0D \<or> c = CHR 0x20)"

subsection \<open>The line scanner\<close>

text \<open>
  \<open>for s.Scan() { ... s.Text() ... }\<close> over a reader that delivers \<open>input\<close>: the
  scanner yields the lines one by one, each without its line feed and without one
  trailing carriage return, and yields no empty last line. A line of
  \<open>MaxScanTokenSize\<close> bytes or more does not fit the scanner's buffer: \<open>Scan\<close> then
  returns false (keeping \<open>ErrTooLong\<close> for \<open>Err\<close>) and the loop ends there. \<open>Scan\<close>
  gives the texts the loop body sees, in order; its first argument is the part of the
  current line read so far.
\<close>

definition MaxScanTokenSize :: nat where
  "MaxScanTokenSize = 64 * 1024"

definition dropCR :: "string \<Rightarrow> string" where
  "dropCR data = (if data \<noteq> [] \<and> last data = CHR 0x0D then butlast data else data)"

fun Scan :: "string \<Rightarrow> string \<Rightarrow> string list" where
  "Scan line [] =
     (if line = [] \<or> length line \<ge> MaxScanTokenSize then [] else [dropCR line])"
| "Scan line (c # cs) =
     (if c = CHR 0x0A then
        (if length line \<ge> MaxScanTokenSize then [] else dropCR line # Scan [] cs)
      else Scan (line @ [c]) cs)"

subsection \<open>Scanning a row with the format\<close>

text \<open>
  \<open>SkipSpace\<close> skips white space before a verb and fails on a line feed.
  \<open>advance_space\<close> is a space of the format: the input must be at its end or
  continue with white space other than a line feed, which is skipped.
  \<open>advance_literal\<close> is a literal of the format (the colon).
\<close>

fun SkipSpace :: "string \<Rightarrow> string option" where
  "SkipSpace [] = Some []"
| "SkipSpace (r # rs) =
     (if r = CHR 0x0A then None else if isSpace r then SkipSpace rs else Some (r # rs))"

definition advance_space :: "string \<Rightarrow> string option" where
  "advance_space input =
     (case input of
        [] \<Rightarrow> Some []
      | c # cs \<Rightarrow>
          if \<not> isSpace c \<or> c = CHR 0x0A then None
          else Some (dropWhile (\<lambda>r. isSpace r \<and> r \<noteq> CHR 0x0A) cs))"

definition advance_literal :: "char \<Rightarrow> string \<Rightarrow> string option" where
  "advance_literal fmtc input =
     (case input of [] \<Rightarrow> None | c # cs \<Rightarrow> if c = fmtc then Some cs else None)"

text \<open>
  \<open>%d\<close> into an \<open>int\<close> (64 bits): an optional sign, then a token of the characters
  \<open>0123456789_\<close>, which \<open>strconv.ParseInt(tok, 10, 64)\<close> must accept: decimal
  digits only, and a value that fits 64 bits.
\<close>

definition isDigit :: "char \<Rightarrow> bool" where
  "isDigit c = (48 \<le> (of_char c :: nat) \<and> (of_char c :: nat) \<le> 57)"

fun parse_digits :: "string \<Rightarrow> nat \<Rightarrow> nat option" where
  "parse_digits [] n = Some n"
| "parse_digits (c # cs) n =
     (if isDigit c then parse_digits cs (10 * n + (of_char c - 48)) else None)"

definition ParseInt :: "string \<Rightarrow> string \<Rightarrow> int option" where
  "ParseInt sign digits =
     (if digits = [] then None
      else case parse_digits digits 0 of
             None \<Rightarrow> None
           | Some n \<Rightarrow>
               let i = (if sign = ''-'' then - int n else int n)
               in if - (2 ^ 63) \<le> i \<and> i \<le> 2 ^ 63 - 1 then Some i else None)"

definition scanInt :: "string \<Rightarrow> (int \<times> string) option" where
  "scanInt input =
     (case SkipSpace input of
        None \<Rightarrow> None
      | Some [] \<Rightarrow> None
      | Some (c # cs) \<Rightarrow>
          let sign = (if c = CHR ''+'' \<or> c = CHR ''-'' then [c] else []);
              rest = (if c = CHR ''+'' \<or> c = CHR ''-'' then cs else c # cs);
              accept = (\<lambda>r. isDigit r \<or> r = CHR ''_'')
          in (case rest of
                [] \<Rightarrow> None
              | r # rs \<Rightarrow>
                  if \<not> accept r then None
                  else map_option (\<lambda>i. (i, dropWhile accept rest))
                         (ParseInt sign (takeWhile accept rest))))"

text \<open>\<open>%s\<close>: skip white space, then the next word, which must not be empty.\<close>

definition scanString :: "string \<Rightarrow> (string \<times> string) option" where
  "scanString input =
     (case SkipSpace input of
        None \<Rightarrow> None
      | Some [] \<Rightarrow> None
      | Some rest \<Rightarrow>
          Some (takeWhile (\<lambda>r. \<not> isSpace r) rest, dropWhile (\<lambda>r. \<not> isSpace r) rest))"

text \<open>
  \<open>fmt.Sscanf(text, mountinfoFormat, ...)\<close>: the eight values on success, \<open>None\<close> when
  it reports an error. Input left over after the eighth value is not looked at.
\<close>

definition Sscanf_mountinfo ::
  "string \<Rightarrow> (int \<times> int \<times> int \<times> int \<times> string \<times> string \<times> string \<times> string) option" where
  "Sscanf_mountinfo text =
     do {
       (ID, r1) \<leftarrow> scanInt text;
       r1 \<leftarrow> advance_space r1;
       (Parent, r2) \<leftarrow> scanInt r1;
       r2 \<leftarrow> advance_space r2;
       (Major, r3) \<leftarrow> scanInt r2;
       r3 \<leftarrow> advance_literal (CHR '':'') r3;
       (Minor, r4) \<leftarrow> scanInt r3;
       r4 \<leftarrow> advance_space r4;
       (Root, r5) \<leftarrow> scanString r4;
       r5 \<leftarrow> advance_space r5;
       (MountPoint, r6) \<leftarrow> scanString r5;
       r6 \<leftarrow> advance_space r6;
       (Opts, r7) \<leftarrow> scanString r6;
       r7 \<leftarrow> advance_space r7;
       (optionalFields, r8) \<leftarrow> scanString r7;
       Some (ID, Parent, Major, Minor, Root, MountPoint, Opts, optionalFields)
     }"

subsection \<open>Index, Fields, Join\<close>

fun Index :: "string \<Rightarrow> string \<Rightarrow> int" where
  "Index [] substr = (if substr = [] then 0 else - 1)"
| "Index (c # cs) substr =
     (if take (length substr) (c # cs) = substr then 0
      else let i = Index cs substr in if i < 0 then - 1 else i + 1)"

fun Fields_loop :: "string \<Rightarrow> string \<Rightarrow> string list" where
  "Fields_loop word [] = (if word = [] then [] else [word])"
| "Fields_loop word (c # cs) =
     (if isSpace c then (if word = [] then Fields_loop [] cs else word # Fields_loop [] cs)
      else Fields_loop (word @ [c]) cs)"

definition Fields :: "string \<Rightarrow> string list" where
  "Fields s = Fields_loop [] s"

fun Join :: "string list \<Rightarrow> string \<Rightarrow> string" where
  "Join [] sep = []"
| "Join [a] sep = a"
| "Join (a # b # rest) sep = a @ sep @ Join (b # rest) sep"

subsection \<open>parseInfoFile\<close>

text \<open>
  The body of the loop for one row. \<open>text[index+3:]\<close> panics when \<open>index + 3\<close>
  exceeds the length of the text; with no separator in the row \<open>index\<close> is \<open>-1\<close> and
  the slice starts at byte 2. The reason the scanner gives for a failure is left out of
  the error message.
\<close>

definition parse_row :: "string \<Rightarrow> error + MountInfo" where
  "parse_row text =
     (case Sscanf_mountinfo text of
        None \<Rightarrow> Inl (Goof (''Scanning '' @ [CHR 0x27] @ text @ [CHR 0x27] @ '' failed''))
      | Some (ID, Parent, Major, Minor, Root, MountPoint, Opts, optionalFields) \<Rightarrow>
          let index = Index text '' - ''
          in if int (length text) < index + 3 then Inl Panic
             else
               let postSeparatorFields = Fields (drop (nat (index + 3)) text)
               in if length postSeparatorFields < 3 then
                    Inl (Goof (''Error found less than 3 fields post '' @ [CHR 0x27] @ ''-''
                               @ [CHR 0x27] @ '' in '' @ text))
                  else
                    Inr \<lparr>mi_ID = ID, mi_Parent = Parent, mi_Major = Major, mi_Minor = Minor,
                         mi_Root = Root, mi_MountPoint = MountPoint, mi_Opts = Opts,
                         mi_Optional = (if optionalFields \<noteq> ''-'' then optionalFields else []),
                         mi_FSType = postSeparatorFields ! 0,
                         mi_Source = postSeparatorFields ! 1,
                         mi_VFSOpts = Join (drop 2 postSeparatorFields) '' ''\<rparr>)"

fun parse_rows :: "string list \<Rightarrow> MountInfo list \<Rightarrow> error + MountInfo list" where
  "parse_rows [] out = Inr out"
| "parse_rows (text # rest) out =
     (case parse_row text of
        Inl err \<Rightarrow> Inl err
      | Inr p \<Rightarrow> parse_rows rest (out @ [p]))"

text \<open>
  The check of \<open>s.Err()\<close> sits inside the loop, where a scanner that has just yielded
  a line from a reader without read errors has none to report; after the loop the
  source returns \<open>out, nil\<close> without looking at \<open>s.Err()\<close>.
\<close>

definition parseInfoFile :: "string \<Rightarrow> error + MountInfo list" where
  "parseInfoFile input = parse_rows (Scan [] input) []"

section \<open>The storage service and its task queue\<close>

text \<open>
  \<open>Init\<close> makes the unbuffered channel \<open>taskExecQueue\<close> and starts one consumer
  goroutine, \<open>for t := range s.taskExecQueue { execTask(t) }\<close>. \<open>TaskExecute\<close>
  builds a task and starts a goroutine of its own, \<open>go func() { s.taskExecQueue <- t }()\<close>,
  then returns. Go leaves the order in which started goroutines run to the scheduler,
  so the service is a transition system over the goroutines it has:
  \<^item> \<open>pending\<close>: the tasks whose hand-off goroutine has been started and has not yet
    completed its send;
  \<^item> \<open>running\<close>: the task the consumer is executing, if any;
  \<^item> \<open>submitted\<close>: the tasks in the order of the \<open>TaskExecute\<close> calls;
  \<^item> \<open>events\<close>: the start and the end of every \<open>execTask\<close>, in the order in which
    they happen.
  A send on the unbuffered channel completes when the consumer receives, and the
  consumer receives only between two \<open>execTask\<close> calls. Tasks are named by numbers.
\<close>

datatype event = Started nat | Finished nat

record service =
  pending :: "nat list"
  running :: "nat option"
  submitted :: "nat list"
  events :: "event list"

definition Init :: service where
  "Init = \<lparr>pending = [], running = None, submitted = [], events = []\<rparr>"

definition TaskExecute :: "nat \<Rightarrow> service \<Rightarrow> service" where
  "TaskExecute t s = s\<lparr>pending := pending s @ [t], submitted := submitted s @ [t]\<rparr>"

definition receive :: "nat \<Rightarrow> service \<Rightarrow> service" where
  "receive t s =
     s\<lparr>pending := remove1 t (pending s), running := Some t,
       events := events s @ [Started t]\<rparr>"

definition return_from_execTask :: "nat \<Rightarrow> service \<Rightarrow> service" where
  "return_from_execTask t s = s\<lparr>running := None, events := events s @ [Finished t]\<rparr>"

inductive step :: "service \<Rightarrow> service \<Rightarrow> bool" where
  submit: "t \<notin> set (submitted s) \<Longrightarrow> step s (TaskExecute t s)"
| deliver: "running s = None \<Longrightarrow> t \<in> set (pending s) \<Longrightarrow> step s (receive t s)"
| finish: "running s = Some t \<Longrightarrow> step s (return_from_execTask t s)"

inductive reachable :: "service \<Rightarrow> bool" where
  init: "reachable Init"
| after: "reachable s \<Longrightarrow> step s s' \<Longrightarrow> reachable s'"

text \<open>
  \<open>serial r es\<close>: replaying the events \<open>es\<close> from a consumer that is executing \<open>r\<close>
  never starts a task while another is being executed and never ends a task other
  than the one being executed; the result is what the consumer executes afterwards.
\<close>

fun serial :: "nat option \<Rightarrow> event list \<Rightarrow> nat option option" where
  "serial r [] = Some r"
| "serial r (Started t # es) = (if r = None then serial (Some t) es else None)"
| "serial r (Finished t # es) = (if r = Some t then serial None es else None)"

text \<open>The tasks started, in the order of their starts.\<close>

fun started :: "event list \<Rightarrow> nat list" where
  "started [] = []"
| "started (Started t # es) = t # started es"
| "started (Finished t # es) = started es"

text \<open>\<open>before xs a b\<close>: \<open>a\<close> occurs in \<open>xs\<close> and its first occurrence precedes every \<open>b\<close>.\<close>

fun before :: "nat list \<Rightarrow> nat \<Rightarrow> nat \<Rightarrow> bool" where
  "before [] a b = False"
| "before (x # xs) a b = (if x = a then True else if x = b then False else before xs a b)"

section \<open>Concrete backends and hosts\<close>

text \<open>
  An EFS service with one file system, \<open>fs-1\<close>, whose \<open>Name\<close> tag is the full name
  that the driver configured with the tag \<open>test\<close> gives the volume \<open>test-vol\<close>; every
  other ID is unknown to it.
\<close>

definition example_efs_client :: efs_client where
  "example_efs_client =
     \<lparr>efs_DescribeFileSystems =
        (\<lambda>fileSystemId.
           if fileSystemId = ''fs-1''
           then Inr [\<lparr>fs_Name = Some ''test/test-vol'', fs_FileSystemId = ''fs-1'',
                      fs_SizeInBytes = 0\<rparr>]
           else Inr []),
      efs_CreateFileSystem = (\<lambda>creationToken. Inr ''fs-1''),
      efs_CreateTags = (\<lambda>fileSystemId key val. None),
      efs_DescribeMountTargets = (\<lambda>fileSystemId. Inr [])\<rparr>"

text \<open>
  An S3 service that answers every \<open>ListObjects\<close> call with one key and the mark
  that the listing is truncated, and accepts every other call.
\<close>

definition truncating_s3_client :: s3_client where
  "truncating_s3_client =
     \<lparr>s3_ListObjects =
        (\<lambda>n bucket. Inr \<lparr>lo_Contents = [''key''], lo_IsTruncated = Some True\<rparr>),
      s3_DeleteObjects = (\<lambda>bucket keys. None),
      s3_DeleteBucket = (\<lambda>bucket. None),
      s3_WaitUntilBucketNotExists = (\<lambda>bucket. None)\<rparr>"

definition example_ofs_driver :: ofs_driver where
  "example_ofs_driver =
     \<lparr>ofs_Name = ''objectivefs'', ofs_accessKey = ''key'', ofs_secretKey = ''secret'',
      ofs_region = ''us-east-1'', ofs_license = ''license'',
      ofs_adminLicense = ''admin-license'', ofs_passphrase = ''passphrase'',
      ofs_metadataHost = []\<rparr>"

text \<open>
  A host on which every device holds \<open>bytes\<close>, every command succeeds, every target
  is found mounted and the \<open>mount\<close> call succeeds; the driver's process has only
  \<open>PATH\<close> in its environment.
\<close>

definition idle_host :: "string \<Rightarrow> host" where
  "idle_host bytes =
     \<lparr>host_open = (\<lambda>name. Inr (File bytes)),
      host_run = (\<lambda>cmd. RunOk),
      host_mounted = (\<lambda>target. Inr True),
      host_mount = (\<lambda>device target fsType options. None),
      host_environ = [''PATH=/usr/bin'']\<rparr>"

text \<open>
  The same host with the passphrase of the example driver in the environment of the
  driver's process, under the name the objectivefs tools read it from.
\<close>

definition passphrase_in_environ_host :: host where
  "passphrase_in_environ_host =
     (idle_host [])\<lparr>host_environ := [''PATH=/usr/bin'', ''OBJECTIVEFS_PASSPHRASE=secret'']\<rparr>"

text \<open>The command that \<open>Mount\<close> runs for the example driver, device and target.\<close>

definition example_mount_command :: Cmd where
  "example_mount_command =
     \<lparr>cmd_Args = [''mount'', ''-t'', ''objectivefs'', ''s3://bucket'', ''/mnt/bucket''],
      cmd_Env = None, cmd_Stdin = Some (''secret'' @ [CHR 0x0A]),
      cmd_Setsid = True, cmd_Setctty = False\<rparr>"


definition ext4_image :: string where
  "ext4_image = replicate 1080 (CHR 0x00) @ [CHR 0x53, CHR 0xEF] @ replicate 64526 (CHR 0x00)"


definition example_linux_driver :: linux_driver where
  "example_linux_driver =
     \<lparr>linux_objectivefsPassphrase = ''secret'', linux_rootpath = ''/data'',
      linux_filemode = 448\<rparr>"


text \<open>
  A state of a service in which task 1 was submitted before task 2 and task 2 was
  executed first.
\<close>

definition out_of_order :: service where
  "out_of_order =
     \<lparr>pending = [], running = None, submitted = [1, 2],
      events = [Started 2, Finished 2, Started 1, Finished 1]\<rparr>"

text \<open>
  What the transitions of a service preserve: the events are serial and end with the
  consumer executing \<open>running\<close>; no task is pending twice, started twice, or both;
  the tasks pending or started are the tasks submitted.
\<close>

definition queue_inv :: "service \<Rightarrow> bool" where
  "queue_inv s \<longleftrightarrow>
     serial None (events s) = Some (running s)
     \<and> distinct (pending s @ started (events s))
     \<and> set (pending s) \<union> set (started (events s)) = set (submitted s)"

text \<open>The row of the mount table that the specification gives as its example.\<close>

definition example_row :: string where
  "example_row =
     ''36 35 98:0 /mnt1 /mnt2 rw,noatime master:1 - ext3 /dev/root rw,errors=continue''"

definition example_mount :: MountInfo where
  "example_mount =
     \<lparr>mi_ID = 36, mi_Parent = 35, mi_Major = 98, mi_Minor = 0,
      mi_Root = ''/mnt1'', mi_MountPoint = ''/mnt2'', mi_Opts = ''rw,noatime'',
      mi_Optional = ''master:1'', mi_FSType = ''ext3'', mi_Source = ''/dev/root'',
      mi_VFSOpts = ''rw,errors=continue''\<rparr>"

section \<open>Validation of empty identifiers (C3)\<close>

text \<open>
  C3, as stated, for every driver variant: \<open>VolumeInspect\<close> with an empty volume ID
  and \<open>VolumeCreate\<close> with an empty name fail with the missing-ID and missing-name
  errors before any backend call. The efs driver does not: asked to inspect the empty
  ID, it sends \<open>DescribeFileSystems\<close> with that ID to the service and, the service
  knowing no such file system, reports \<open>ErrNotFound\<close>; asked to create a volume
  with the empty name, it has the service create a file system and tag it, and
  returns the volume.
\<close>

theorem C3_counterexample_efs_does_not_validate:
  "efs_VolumeInspect ''test'' example_efs_client \<lparr>ctx_LocalDevices = None\<rparr> [] False
     = (Inl ErrNotFound, [DescribeFileSystems []])
   \<and> snd (efs_VolumeCreate ''test'' example_efs_client \<lparr>ctx_LocalDevices = None\<rparr> [])
     = [CreateFileSystem [], CreateTags ''fs-1'' ''Name'' ''test/'', DescribeFileSystems ''fs-1'']
   \<and> \<not> isl (fst (efs_VolumeCreate ''test'' example_efs_client
                        \<lparr>ctx_LocalDevices = None\<rparr> []))"
  by (simp add: efs_VolumeInspect_def efs_VolumeCreate_def example_efs_client_def
      getFullVolumeName_def tagDelimiter_def)

text \<open>
  C3, amended to the objectivefs driver: \<open>VolumeInspect\<close> with an empty volume ID
  fails with \<open>ErrMissingVolID\<close> (it makes no backend call on any input), and
  \<open>VolumeCreate\<close> with an empty name fails with \<open>ErrMissingVolName\<close> and has run no
  command.
\<close>

theorem C3_objectivefs_rejects_empty_before_backend:
  "ofs_VolumeInspect d ctx [] optsAttachments = Inl ErrMissingVolID
   \<and> ofs_VolumeCreate d run ctx [] = (Inl ErrMissingVolName, [])"
  by (simp add: ofs_VolumeInspect_def ofs_VolumeCreate_def)

section \<open>Snapshot operations (C4)\<close>

text \<open>
  C4, as stated: each snapshot operation of a driver without snapshots fails with
  \<open>ErrNotImplemented\<close>. Four of them do not fail in the objectivefs driver:
  \<open>Snapshots\<close> returns the empty list, \<open>SnapshotInspect\<close> and \<open>SnapshotCopy\<close>
  return no snapshot, \<open>SnapshotRemove\<close> returns, all with no error.
\<close>

theorem C4_counterexample_snapshot_queries_succeed:
  "ofs_Snapshots = Inr []
   \<and> ofs_SnapshotInspect ''snap-1'' = Inr None
   \<and> ofs_SnapshotCopy ''snap-1'' ''copy'' ''dest'' = Inr None
   \<and> ofs_SnapshotRemove ''snap-1'' = None"
  by (simp add: ofs_Snapshots_def ofs_SnapshotInspect_def ofs_SnapshotCopy_def
      ofs_SnapshotRemove_def)

text \<open>
  C4, amended: in each of the four storage drivers (objectivefs, efs, s3fs,
  glusterfs), none of which supports snapshots, \<open>VolumeCreateFromSnapshot\<close>,
  \<open>VolumeCopy\<close> and \<open>VolumeSnapshot\<close> fail with \<open>ErrNotImplemented\<close>, while
  \<open>Snapshots\<close>, \<open>SnapshotInspect\<close>, \<open>SnapshotCopy\<close> and \<open>SnapshotRemove\<close>
  return an empty result and no error.
\<close>

theorem C4_snapshot_operations:
  "ofs_VolumeCreateFromSnapshot snapshotID volumeName = Inl ErrNotImplemented
   \<and> ofs_VolumeCopy volumeID volumeName = Inl ErrNotImplemented
   \<and> ofs_VolumeSnapshot volumeID snapshotName = Inl ErrNotImplemented
   \<and> ofs_Snapshots = Inr []
   \<and> ofs_SnapshotInspect snapshotID = Inr None
   \<and> ofs_SnapshotCopy snapshotID snapshotName destinationID = Inr None
   \<and> ofs_SnapshotRemove snapshotID = None
   \<and> efs_VolumeCreateFromSnapshot snapshotID volumeName = Inl ErrNotImplemented
   \<and> efs_VolumeCopy volumeID volumeName = Inl ErrNotImplemented
   \<and> efs_VolumeSnapshot volumeID snapshotName = Inl ErrNotImplemented
   \<and> efs_Snapshots = Inr []
   \<and> efs_SnapshotInspect snapshotID = Inr None
   \<and> efs_SnapshotCopy snapshotID snapshotName destinationID = Inr None
   \<and> efs_SnapshotRemove snapshotID = None
   \<and> s3fs_VolumeCreateFromSnapshot snapshotID volumeName = Inl ErrNotImplemented
   \<and> s3fs_VolumeCopy volumeID volumeName = Inl ErrNotImplemented
   \<and> s3fs_VolumeSnapshot volumeID snapshotName = Inl ErrNotImplemented
   \<and> s3fs_Snapshots = Inr []
   \<and> s3fs_SnapshotInspect snapshotID = Inr None
   \<and> s3fs_SnapshotCopy snapshotID snapshotName destinationID = Inr None
   \<and> s3fs_SnapshotRemove snapshotID = None
   \<and> gluster_VolumeCreateFromSnapshot snapshotID volumeName = Inl ErrNotImplemented
   \<and> gluster_VolumeCopy volumeID volumeName = Inl ErrNotImplemented
   \<and> gluster_VolumeSnapshot volumeID snapshotName = Inl ErrNotImplemented
   \<and> gluster_Snapshots = Inr []
   \<and> gluster_SnapshotInspect snapshotID = Inr None
   \<and> gluster_SnapshotCopy snapshotID snapshotName destinationID = Inr None
   \<and> gluster_SnapshotRemove snapshotID = None"
  by (simp add: ofs_VolumeCreateFromSnapshot_def ofs_VolumeCopy_def ofs_VolumeSnapshot_def ofs_Snapshots_def ofs_SnapshotInspect_def ofs_SnapshotCopy_def ofs_SnapshotRemove_def
      efs_VolumeCreateFromSnapshot_def efs_VolumeCopy_def efs_VolumeSnapshot_def efs_Snapshots_def efs_SnapshotInspect_def efs_SnapshotCopy_def efs_SnapshotRemove_def
      s3fs_VolumeCreateFromSnapshot_def s3fs_VolumeCopy_def s3fs_VolumeSnapshot_def s3fs_Snapshots_def s3fs_SnapshotInspect_def s3fs_SnapshotCopy_def s3fs_SnapshotRemove_def
      gluster_VolumeCreateFromSnapshot_def gluster_VolumeCopy_def gluster_VolumeSnapshot_def gluster_Snapshots_def gluster_SnapshotInspect_def gluster_SnapshotCopy_def gluster_SnapshotRemove_def)

section \<open>Removing a volume (C5)\<close>

text \<open>
  Once the first listing is marked truncated and the service keeps answering, the
  loop of \<open>VolumeRemove\<close> has no way out: its condition reads the first answer for
  ever. A run of \<open>drain\<close> that returned would contradict this, by induction on the
  run.
\<close>

lemma drain_never_returns:
  assumes major: "drain c volumeID resp n deletables calls = Some y"
  shows "lo_IsTruncated resp = Some True \<Longrightarrow>
         (\<forall>n. \<not> isl (s3_ListObjects c n volumeID)) \<Longrightarrow> False"
  using major
proof (induction rule: drain.raw_induct)
  case (1 drain' c volumeID resp n deletables calls y)
  note trunc = \<open>lo_IsTruncated resp = Some True\<close>
  note ok = \<open>\<forall>n. \<not> isl (s3_ListObjects c n volumeID)\<close>
  from ok have "\<not> isl (s3_ListObjects c n volumeID)" by blast
  then obtain resp' where r: "s3_ListObjects c n volumeID = Inr resp'"
    by (cases "s3_ListObjects c n volumeID") auto
  from 1 r
  have "drain' c volumeID resp (Suc n) (deletables @ lo_Contents resp')
          (calls @ [ListObjects volumeID]) = Some y"
    by simp
  moreover from \<open>drain c volumeID resp n deletables calls = Some y\<close> trunc r
  have "drain c volumeID resp (Suc n) (deletables @ lo_Contents resp')
          (calls @ [ListObjects volumeID]) = Some y"
    by (subst (asm) drain.simps) simp
  ultimately show ?case using "1.IH" trunc ok by blast
qed (rule major)

lemma drain_not_truncated:
  "lo_IsTruncated resp = Some False \<Longrightarrow>
   drain c volumeID resp n deletables calls = Some (Inr deletables, calls)"
  by (subst drain.simps) simp

text \<open>
  When the first listing is not marked truncated, \<open>VolumeRemove\<close> returns after
  one listing: it deletes the keys listed (if any), deletes the bucket and waits, and
  the first error of these steps is its result.
\<close>

lemma VolumeRemove_single_page:
  assumes "s3_ListObjects c 0 volumeID = Inr resp" and "lo_IsTruncated resp = Some False"
  shows "ofs_VolumeRemove c volumeID =
           Some (remove_bucket c volumeID (lo_Contents resp) [ListObjects volumeID])"
  using assms by (simp add: ofs_VolumeRemove_def drain_not_truncated)

text \<open>
  C5 says that \<open>VolumeRemove\<close> terminates for every sequence of list responses,
  truncated ones included. Against a service whose listings are marked truncated and
  that never fails, \<open>VolumeRemove\<close> does not return.
\<close>

theorem C5_VolumeRemove_diverges_on_truncated_listing:
  "ofs_VolumeRemove truncating_s3_client ''bucket'' = None"
proof -
  let ?resp = "\<lparr>lo_Contents = [''key''], lo_IsTruncated = Some True\<rparr>"
  have "drain truncating_s3_client ''bucket'' ?resp 1 (lo_Contents ?resp)
          [ListObjects ''bucket''] = None"
  proof (cases "drain truncating_s3_client ''bucket'' ?resp 1 (lo_Contents ?resp)
                  [ListObjects ''bucket'']")
    case None
    then show ?thesis .
  next
    case (Some y)
    from drain_never_returns[OF Some] show ?thesis
      by (simp add: truncating_s3_client_def)
  qed
  then show ?thesis
    by (simp add: ofs_VolumeRemove_def truncating_s3_client_def)
qed

section \<open>Attachment status (C6)\<close>

text \<open>
  C6: for a volume whose attachments are computed (its ID is not empty), the
  objectivefs and the glusterfs driver each report one attachment, whose status is
  \<open>Exported and Mounted\<close> when the driver's device string is a key of the local
  device map, \<open>Exported and Unmounted\<close> when the map is there without that key, and
  \<open>Exported\<close> when the context has no local device map. The device string is
  \<open>s3://\<close> followed by the volume ID for objectivefs, the formatted volume ID for
  glusterfs.
\<close>

theorem C6_attachment_status:
  assumes "volumeID \<noteq> []"
  shows "map_sum id (map att_Status) (ofs_getVolumeAttachments d ctx volumeID) =
           Inr [case ctx_LocalDevices ctx of
                  None \<Rightarrow> ''Exported''
                | Some ld \<Rightarrow>
                    if objectivefsPrefix @ volumeID \<in> dom ld then ''Exported and Mounted''
                    else ''Exported and Unmounted'']
       \<and> map_sum id (map att_Status) (gluster_getVolumeAttachments formatter ctx volumeID) =
           Inr [case ctx_LocalDevices ctx of
                  None \<Rightarrow> ''Exported''
                | Some ld \<Rightarrow>
                    if formatter volumeID \<in> dom ld then ''Exported and Mounted''
                    else ''Exported and Unmounted'']"
  using assms
  by (auto simp: ofs_getVolumeAttachments_def gluster_getVolumeAttachments_def Let_def
      split: option.splits)

text \<open>
  Witness for C6: the volume \<open>vol\<close>, with \<open>s3://vol\<close> mounted locally and the
  glusterfs device \<open>vol.gluster\<close> not mounted.
\<close>

theorem C6_attachment_status_witness:
  "''vol'' \<noteq> []
   \<and> map_sum id (map att_Status)
       (ofs_getVolumeAttachments example_ofs_driver
          \<lparr>ctx_LocalDevices = Some [''s3://vol'' \<mapsto> ''/mnt/vol'']\<rparr> ''vol'') =
         Inr [''Exported and Mounted'']
   \<and> map_sum id (map att_Status)
       (gluster_getVolumeAttachments (\<lambda>v. v @ ''.gluster'')
          \<lparr>ctx_LocalDevices = Some [''s3://vol'' \<mapsto> ''/mnt/vol'']\<rparr> ''vol'') =
         Inr [''Exported and Unmounted'']"
  using C6_attachment_status [of "''vol''" example_ofs_driver
      "\<lparr>ctx_LocalDevices = Some [''s3://vol'' \<mapsto> ''/mnt/vol'']\<rparr>" "\<lambda>v. v @ ''.gluster''"]
  by (simp add: objectivefsPrefix_def)

section \<open>Name mangling of the efs driver (C10)\<close>

text \<open>
  C10 says that the printable name of a full volume name is the original name, so
  that the volume \<open>VolumeCreate\<close> returns carries the name it was given.
  \<open>getPrintableName\<close> trims with \<open>strings.TrimLeft\<close>, whose second argument is a set
  of characters, not a prefix: with the tag \<open>test\<close>, the name \<open>test-vol\<close> becomes
  \<open>test/test-vol\<close> and comes back as \<open>-vol\<close>, also from \<open>VolumeCreate\<close>. The s3fs
  driver, which trims with \<open>strings.TrimPrefix\<close>, gets the name back.
\<close>

theorem C10_printable_name_loses_leading_tag_characters:
  "getPrintableName ''test'' (getFullVolumeName ''test'' ''test-vol'') = ''-vol''
   \<and> map_sum id vol_Name
        (fst (efs_VolumeCreate ''test'' example_efs_client \<lparr>ctx_LocalDevices = None\<rparr>
                ''test-vol'')) = Inr ''-vol''
   \<and> s3fs_getPrintableName ''test'' (s3fs_getFullVolumeName ''test'' ''test-vol'')
        = ''test-vol''"
  by (simp add: getPrintableName_def getFullVolumeName_def TrimLeft_def tagDelimiter_def
      efs_VolumeCreate_def efs_VolumeInspect_def example_efs_client_def
      s3fs_getPrintableName_def s3fs_getFullVolumeName_def TrimPrefix_def s3fs_tagDelimiter_def)

section \<open>The objectivefs mount of the OS driver (C2)\<close>

text \<open>
  C2, as stated: the passphrase appears in neither the argument vector nor the
  environment of the mount subprocess. The driver sets no environment for the command,
  so the subprocess is started with the environment of the driver's own process; on a
  host where that environment holds the passphrase (as \<open>OBJECTIVEFS_PASSPHRASE\<close>,
  where the objectivefs tools and the storage driver's \<open>VolumeCreate\<close> put it), the
  passphrase is in the environment of the subprocess of a successful \<open>Mount\<close>.
\<close>

theorem C2_counterexample_passphrase_in_inherited_environment:
  "Mount example_linux_driver passphrase_in_environ_host ''s3://bucket'' ''/mnt/bucket'' [] [] =
     (None,
      [Exec example_mount_command, QueryMounted ''/mnt/bucket'',
       MkdirAll ''/mnt/bucket/data'' 448, Chmod ''/mnt/bucket/data'' 448])
   \<and> appears_in (linux_objectivefsPassphrase example_linux_driver)
        (child_environ passphrase_in_environ_host example_mount_command)"
  by (simp add: isObjectivefsDevice_def Mount_def objectivefsMount_def Command_def
      example_linux_driver_def passphrase_in_environ_host_def idle_host_def
      prepare_mount_path_def volumeMountPath_def example_mount_command_def
      child_environ_def appears_in_def)

text \<open>
  C2, amended: when \<open>Mount\<close> is given an object-URI device (one containing
  \<open>s3://\<close>), every command it runs is \<open>mount -t objectivefs device target\<close> with
  exactly those arguments and with no environment set by the driver, so that it is
  started with the environment of the driver's own process; its standard input is the
  configured passphrase followed by one line feed; it is put in a session of its own
  and takes no controlling terminal. Hence the passphrase appears in neither the
  argument vector nor the environment of the subprocess whenever it occurs neither in
  the device string, the mount point or the three fixed words, nor in the environment
  of the driver's process. And \<open>Mount\<close> succeeds only if, after the command, the
  query of the mount table for the target answers that it is mounted, whatever the
  command reported.
\<close>

theorem C2_objectivefs_mount_secret_on_stdin_and_verified:
  assumes "isObjectivefsDevice deviceName"
    and "Mount d h deviceName mountPoint optsMountOptions optsMountLabel = (result, calls)"
  shows "(\<forall>cmd. Exec cmd \<in> set calls \<longrightarrow>
            cmd_Args cmd = [''mount'', ''-t'', ''objectivefs'', deviceName, mountPoint]
            \<and> cmd_Env cmd = None
            \<and> child_environ h cmd = host_environ h
            \<and> cmd_Stdin cmd = Some (linux_objectivefsPassphrase d @ [CHR 0x0A])
            \<and> cmd_Setsid cmd \<and> \<not> cmd_Setctty cmd
            \<and> (\<not> Contains deviceName (linux_objectivefsPassphrase d)
                 \<and> \<not> Contains mountPoint (linux_objectivefsPassphrase d)
                 \<and> \<not> appears_in (linux_objectivefsPassphrase d)
                        [''mount'', ''-t'', ''objectivefs'']
                 \<and> \<not> appears_in (linux_objectivefsPassphrase d) (host_environ h)
               \<longrightarrow> \<not> appears_in (linux_objectivefsPassphrase d) (cmd_Args cmd)
                 \<and> \<not> appears_in (linux_objectivefsPassphrase d) (child_environ h cmd)))
       \<and> (result = None \<longrightarrow>
            (\<exists>cmd. calls = [Exec cmd, QueryMounted mountPoint] @ prepare_mount_path d mountPoint)
            \<and> host_mounted h mountPoint = Inr True)"
proof -
  have shape: "\<forall>cmd. Exec cmd \<in> set calls \<longrightarrow>
            cmd_Args cmd = [''mount'', ''-t'', ''objectivefs'', deviceName, mountPoint]
            \<and> cmd_Env cmd = None
            \<and> cmd_Stdin cmd = Some (linux_objectivefsPassphrase d @ [CHR 0x0A])
            \<and> cmd_Setsid cmd \<and> \<not> cmd_Setctty cmd"
    using assms
    by (auto simp: Mount_def objectivefsMount_def Command_def Let_def prepare_mount_path_def
        split: if_splits run_result.splits sum.splits prod.splits option.splits)
  have verified: "result = None \<longrightarrow>
            (\<exists>cmd. calls = [Exec cmd, QueryMounted mountPoint] @ prepare_mount_path d mountPoint)
            \<and> host_mounted h mountPoint = Inr True"
    using assms
    by (auto simp: Mount_def objectivefsMount_def Command_def Let_def prepare_mount_path_def
        split: if_splits run_result.splits sum.splits prod.splits option.splits)
  from shape verified show ?thesis
    by (simp add: child_environ_def appears_in_def)
qed

text \<open>
  Witness for C2: mounting \<open>s3://bucket\<close> on \<open>/mnt/bucket\<close> with the passphrase
  \<open>secret\<close>, on a host where the command succeeds, the target is then mounted and
  the driver's environment holds \<open>PATH\<close> only.
\<close>

theorem C2_objectivefs_mount_witness:
  "isObjectivefsDevice ''s3://bucket''
   \<and> Mount example_linux_driver (idle_host []) ''s3://bucket'' ''/mnt/bucket'' [] [] =
       (None,
        [Exec example_mount_command, QueryMounted ''/mnt/bucket'',
         MkdirAll ''/mnt/bucket/data'' 448, Chmod ''/mnt/bucket/data'' 448])
   \<and> \<not> appears_in ''secret'' (cmd_Args example_mount_command)
   \<and> \<not> appears_in ''secret'' (child_environ (idle_host []) example_mount_command)
   \<and> host_mounted (idle_host []) ''/mnt/bucket'' = Inr True"
  using C2_objectivefs_mount_secret_on_stdin_and_verified
    [of "''s3://bucket''" example_linux_driver "idle_host []" "''/mnt/bucket''" "[]" "[]" None
      "[Exec example_mount_command, QueryMounted ''/mnt/bucket'',
        MkdirAll ''/mnt/bucket/data'' 448, Chmod ''/mnt/bucket/data'' 448]"]
  by (simp add: isObjectivefsDevice_def Mount_def objectivefsMount_def Command_def
      example_linux_driver_def idle_host_def prepare_mount_path_def volumeMountPath_def
      example_mount_command_def child_environ_def appears_in_def)

section \<open>Probing the filesystem signature (C8)\<close>

lemma maxLen_probes: "maxLen_loop probes 0 = 65608"
  by (simp add: probes_def)

lemma window:
  "n + k \<le> m \<Longrightarrow> take k (drop n (take m xs)) = take k (drop n xs)"
  by (simp add: drop_take)

lemma match_probes_window:
  "\<forall>p \<in> set ps. offset p + length (magic p) \<le> m \<Longrightarrow>
   match_probes ps (take m xs) = match_probes ps xs"
  by (induction ps) (simp_all add: window)


lemma match_probes_name:
  "match_probes ps buffer = Inr fsType \<Longrightarrow> fsType \<in> fsName ` set ps"
  by (induction ps) (auto split: if_splits)

lemma probeFsType_full_window:
  assumes "host_open h device = Inr (File bytes)" and "65608 \<le> length bytes"
  shows "probeFsType h device = match_probes probes bytes"
proof -
  from assms(2) have ne: "bytes \<noteq> []" by auto
  have "match_probes probes (take 65608 bytes) = match_probes probes bytes"
    by (rule match_probes_window) (simp add: probes_def)
  with assms ne show ?thesis
    by (simp add: probeFsType_def maxLen_probes Read_def)
qed

lemma probeFsType_name:
  assumes "probeFsType h deviceName = Inr fsType"
  shows "fsType \<noteq> []"
proof -
  from assms obtain buffer where "match_probes probes buffer = Inr fsType"
    by (auto simp: probeFsType_def Let_def split: sum.splits if_splits)
  from match_probes_name[OF this] show ?thesis
    by (auto simp: probes_def)
qed


lemma ext4_image_probe: "probeFsType (idle_host ext4_image) ''/dev/xvdf'' = Inr ''ext4''"
proof -
  have "probeFsType (idle_host ext4_image) ''/dev/xvdf'' = match_probes probes ext4_image"
    by (rule probeFsType_full_window) (simp_all add: idle_host_def ext4_image_def)
  also have "\<dots> = Inr ''ext4''"
    by (simp add: probes_def ext4_image_def)
  finally show ?thesis .
qed







section \<open>Format (C9)\<close>

text \<open>
  C9: when probing detects a filesystem on the device and \<open>overwrite\<close> is false,
  \<open>Format\<close> runs no command and succeeds; when creation is attempted (probing found
  no filesystem, or found one and \<open>overwrite\<close> is true) and the new filesystem type
  is neither \<open>ext4\<close> nor \<open>xfs\<close>, \<open>Format\<close> fails with
  \<open>errUnsupportedFileSystem\<close>.
\<close>

theorem C9_Format_noop_or_unsupported:
  "(probeFsType h deviceName = Inr fsType \<and> \<not> optsOverwriteFS
      \<longrightarrow> Format h deviceName optsOverwriteFS optsNewFSType = (None, []))
   \<and> ((probeFsType h deviceName = Inl errUnknownFileSystem
        \<or> (probeFsType h deviceName = Inr fsType \<and> optsOverwriteFS))
       \<and> optsNewFSType \<noteq> ''ext4'' \<and> optsNewFSType \<noteq> ''xfs''
      \<longrightarrow> Format h deviceName optsOverwriteFS optsNewFSType
            = (Some errUnsupportedFileSystem, []))"
  using probeFsType_name[of h deviceName fsType]
  by (auto simp: Format_def)

text \<open>
  Witness for C9: a device identified as ext4. Without \<open>overwrite\<close>, \<open>Format\<close> to
  ext4 does nothing; with \<open>overwrite\<close>, \<open>Format\<close> to btrfs is refused.
\<close>

theorem C9_Format_witness:
  "probeFsType (idle_host ext4_image) ''/dev/xvdf'' = Inr ''ext4''
   \<and> Format (idle_host ext4_image) ''/dev/xvdf'' False ''ext4'' = (None, [])
   \<and> Format (idle_host ext4_image) ''/dev/xvdf'' True ''btrfs''
       = (Some errUnsupportedFileSystem, [])"
  using C9_Format_noop_or_unsupported
      [of "idle_host ext4_image" "''/dev/xvdf''" "''ext4''" False "''ext4''"]
    C9_Format_noop_or_unsupported
      [of "idle_host ext4_image" "''/dev/xvdf''" "''ext4''" True "''btrfs''"]
    ext4_image_probe
  by simp

section \<open>The task queue of a service (C1)\<close>

lemma reachable_out_of_order: "reachable out_of_order"
proof -
  let ?s1 = "TaskExecute 1 Init"
  let ?s2 = "TaskExecute 2 ?s1"
  let ?s3 = "receive 2 ?s2"
  let ?s4 = "return_from_execTask 2 ?s3"
  let ?s5 = "receive 1 ?s4"
  let ?s6 = "return_from_execTask 1 ?s5"
  have "reachable ?s1"
    by (rule reachable.after[OF reachable.init]) (rule step.submit, simp add: Init_def)
  then have "reachable ?s2"
    by (rule reachable.after) (rule step.submit, simp add: Init_def TaskExecute_def)
  then have "reachable ?s3"
    by (rule reachable.after) (rule step.deliver, simp_all add: Init_def TaskExecute_def)
  then have "reachable ?s4"
    by (rule reachable.after) (rule step.finish, simp add: receive_def)
  then have "reachable ?s5"
    by (rule reachable.after)
       (rule step.deliver,
        simp_all add: Init_def TaskExecute_def receive_def return_from_execTask_def)
  then have "reachable ?s6"
    by (rule reachable.after) (rule step.finish, simp add: receive_def)
  moreover have "?s6 = out_of_order"
    by (simp add: out_of_order_def Init_def TaskExecute_def receive_def
        return_from_execTask_def)
  ultimately show ?thesis by simp
qed

lemma started_append: "started (es @ es') = started es @ started es'"
  by (induction es rule: started.induct) simp_all

lemma serial_append:
  "serial r (es @ es') = (case serial r es of None \<Rightarrow> None | Some r' \<Rightarrow> serial r' es')"
  by (induction r es rule: serial.induct) simp_all

lemma queue_inv_Init: "queue_inv Init"
  by (simp add: queue_inv_def Init_def)

lemma queue_inv_step: "step s s' \<Longrightarrow> queue_inv s \<Longrightarrow> queue_inv s'"
proof (induction rule: step.induct)
  case (submit t s)
  then show ?case
    by (auto simp: queue_inv_def TaskExecute_def)
next
  case (deliver s t)
  then show ?case
    by (auto simp: queue_inv_def receive_def serial_append started_append)
next
  case (finish s t)
  then show ?case
    by (auto simp: queue_inv_def return_from_execTask_def serial_append started_append)
qed

lemma reachable_queue_inv: "reachable s \<Longrightarrow> queue_inv s"
  by (induction rule: reachable.induct) (auto intro: queue_inv_Init queue_inv_step)

text \<open>
  C1, as stated: of two tasks submitted to a service, the one submitted first is
  executed first. The service can reach a state in which task 1 was submitted before
  task 2 and task 2 was executed before task 1: the two hand-off goroutines were
  scheduled in the other order.
\<close>

theorem C1_counterexample_later_task_runs_first:
  "reachable out_of_order
   \<and> submitted out_of_order = [1, 2]
   \<and> started (events out_of_order) = [2, 1]"
  using reachable_out_of_order by (simp add: out_of_order_def)

text \<open>
  C1, amended: in every state a service can reach, the run functions have been
  executed one at a time (a task starts only when none is being executed, and the task
  that ends is the one being executed), no task has been executed twice, and every
  task executed was submitted. The order of execution is the order in which the
  hand-off goroutines deliver the tasks, which need not be the order of submission.
\<close>

theorem C1_tasks_run_one_at_a_time:
  assumes "reachable s"
  shows "serial None (events s) = Some (running s)
       \<and> distinct (started (events s))
       \<and> set (started (events s)) \<subseteq> set (submitted s)"
  using reachable_queue_inv[OF assms] by (auto simp: queue_inv_def)

text \<open>Witness for C1: the state reached above.\<close>

theorem C1_tasks_run_one_at_a_time_witness:
  "reachable out_of_order
   \<and> serial None (events out_of_order) = Some (running out_of_order)
   \<and> distinct (started (events out_of_order))
   \<and> set (started (events out_of_order)) \<subseteq> set (submitted out_of_order)"
  using C1_tasks_run_one_at_a_time [of out_of_order] reachable_out_of_order by simp

section \<open>Parsing the mount table (C7)\<close>

lemma Scan_replicate:
  "c \<noteq> CHR 0x0A \<Longrightarrow>
   Scan line (replicate n c) =
     (if line @ replicate n c = [] \<or> MaxScanTokenSize \<le> length line + n then []
      else [dropCR (line @ replicate n c)])"
proof (induction n arbitrary: line)
  case 0
  then show ?case by simp
next
  case (Suc n)
  then show ?case by (simp add: replicate_app_Cons_same)
qed

lemma Scan_line:
  "CHR 0x0A \<notin> set row \<Longrightarrow>
   Scan line (row @ CHR 0x0A # rest) =
     (if MaxScanTokenSize \<le> length line + length row then []
      else dropCR (line @ row) # Scan [] rest)"
  by (induction row arbitrary: line) auto

text \<open>The example row of the specification parses to the values it names.\<close>

lemma parse_row_example: "parse_row example_row = Inr example_mount"
  by (simp add: example_row_def example_mount_def parse_row_def Sscanf_mountinfo_def
      scanInt_def scanString_def advance_space_def advance_literal_def ParseInt_def
      isSpace_def isDigit_def Fields_def Let_def)

lemma parseInfoFile_example: "parseInfoFile example_row = Inr [example_mount]"
proof -
  have "Scan [] example_row = [example_row]"
    by (simp add: example_row_def MaxScanTokenSize_def dropCR_def)
  then show ?thesis
    by (simp add: parseInfoFile_def parse_row_example)
qed

text \<open>
  The example row cut after its second trailer field, and a row whose first field is
  not a number, are refused.
\<close>

lemma parse_row_refused:
  "isl (parse_row ''36 35 98:0 /mnt1 /mnt2 rw,noatime master:1 - ext3 /dev/root'')"
  "isl (parse_row ''x 35 98:0 /mnt1 /mnt2 rw,noatime master:1 - ext3 /dev/root rw'')"
  by (simp_all add: parse_row_def Sscanf_mountinfo_def scanInt_def scanString_def
      advance_space_def advance_literal_def ParseInt_def isSpace_def isDigit_def Fields_def
      Let_def)

text \<open>
  A row that the scanner delivers and that the format does not match, or that has
  fewer than three fields after its separator, fails the whole parse.
\<close>

lemma parse_row_malformed:
  "Sscanf_mountinfo text = None
   \<or> length (Fields (drop (nat (Index text '' - '' + 3)) text)) < 3
   \<Longrightarrow> isl (parse_row text)"
  by (auto simp: parse_row_def Let_def split: option.splits)

lemma parse_rows_malformed:
  "\<exists>text \<in> set rows. isl (parse_row text) \<Longrightarrow> isl (parse_rows rows out)"
  by (induction rows arbitrary: out) (auto split: sum.splits)

lemma parseInfoFile_delivered_malformed_row:
  assumes "text \<in> set (Scan [] input)"
    and "Sscanf_mountinfo text = None
         \<or> length (Fields (drop (nat (Index text '' - '' + 3)) text)) < 3"
  shows "isl (parseInfoFile input)"
  unfolding parseInfoFile_def
  using assms parse_row_malformed by (blast intro: parse_rows_malformed)

text \<open>
  C7 says that every input with a row that the format does not match makes the whole
  parse fail. A row of 70000 bytes (here of the letter \<open>x\<close>, which the format does
  not match) is more than the scanner holds: the scan stops, the loop is left, and
  \<open>parseInfoFile\<close> returns what it has with no error: nothing when the row comes
  first, the rows before it otherwise, whatever follows. Besides, a row without the
  separator is not refused either: \<open>strings.Index\<close> answers \<open>-1\<close>, the trailer is
  taken from byte 2 of the row, and the filesystem type of the example row without its
  separator comes out as \<open>35\<close>.
\<close>

theorem C7_parseInfoFile_accepts_input_with_overlong_row:
  "parseInfoFile (replicate 70000 (CHR ''x'')) = Inr []
   \<and> parseInfoFile (example_row @ CHR 0x0A # replicate 70000 (CHR ''x'') @ CHR 0x0A # ''junk'')
       = Inr [example_mount]
   \<and> map_sum id (map mi_FSType)
       (parseInfoFile ''36 35 98:0 /mnt1 /mnt2 rw,noatime master:1 ext3 /dev/root rw'')
       = Inr [''35'']"
proof -
  have 1: "parseInfoFile (replicate 70000 (CHR ''x'')) = Inr []"
    by (simp add: parseInfoFile_def Scan_replicate MaxScanTokenSize_def)
  have nl: "CHR 0x0A \<notin> set example_row"
    by (simp add: example_row_def)
  have cr: "dropCR example_row = example_row"
    by (simp add: example_row_def dropCR_def)
  have len: "length example_row < MaxScanTokenSize"
    by (simp add: example_row_def MaxScanTokenSize_def)
  have "Scan [] (example_row @ CHR 0x0A # replicate 70000 (CHR ''x'') @ CHR 0x0A # ''junk'')
          = [example_row]"
    using nl len by (simp add: Scan_line cr) (simp add: MaxScanTokenSize_def)
  then have 2: "parseInfoFile
      (example_row @ CHR 0x0A # replicate 70000 (CHR ''x'') @ CHR 0x0A # ''junk'')
        = Inr [example_mount]"
    by (simp add: parseInfoFile_def parse_row_example)
  have 3: "map_sum id (map mi_FSType)
       (parseInfoFile ''36 35 98:0 /mnt1 /mnt2 rw,noatime master:1 ext3 /dev/root rw'')
       = Inr [''35'']"
    by (simp add: parseInfoFile_def MaxScanTokenSize_def dropCR_def parse_row_def
        Sscanf_mountinfo_def scanInt_def scanString_def advance_space_def advance_literal_def
        ParseInt_def isSpace_def isDigit_def Fields_def Let_def)
  from 1 2 3 show ?thesis by simp
qed

end
